theory Spec2Isabelle
  imports Complex_Main "HOL-Library.Word"
begin

section \<open>Data model of \<open>client/circuit_breaker/circuit_breaker.go\<close>\<close>

text \<open>
  The Go types are kept as they are declared.  \<open>uint32\<close> fields are 32-bit words, so
  \<open>+\<close> and \<open>*\<close> wrap around as in Go.  \<open>Overloading\<close> and \<open>StateType\<close> are declared
  \<open>int\<close> in the source, with named constants; the \<open>default\<close> branches of the switches
  are therefore part of the model.  A \<open>time.Time\<close> is an instant counted in nanoseconds
  (the zero \<open>time.Time\<close> is \<open>0\<close>), a \<open>time.Duration\<close> a number of nanoseconds;
  \<open>t.Add d\<close> is \<open>t + d\<close> and \<open>s.Before t\<close> is \<open>s < t\<close>.
\<close>

type_synonym uint32 = "32 word"
type_synonym Time = int
type_synonym Duration = int

type_synonym Overloading = int

definition No :: Overloading where "No = 0"
definition Yes :: Overloading where "Yes = 1"

type_synonym StateType = int

definition StateClosed :: StateType where "StateClosed = 0"
definition StateOpen :: StateType where "StateOpen = 1"
definition StateHalfOpen :: StateType where "StateHalfOpen = 2"

record Settings =
  ErrorRateThresholdPct :: uint32
  MinQPSForOpen :: uint32
  ErrorRateWindow :: Duration
  CoolDownInterval :: Duration
  HalfOpenSuccessCount :: uint32

text \<open>
  A \<open>*State[T]\<close> is a pointer: \<open>CircuitBreaker.onResult\<close> compares pointers, and
  \<open>State.onRequest\<close> increments \<open>pendingCount\<close> through one.  States therefore live in
  a store, and a pointer is an address into it.  Field \<open>end\<close> is spelled \<open>end_time\<close>.
  The back pointer \<open>State.cb\<close> always holds the breaker that allocated the state, which is
  the only breaker of the model, so \<open>s.cb.config\<close> is \<open>config cb\<close>.
\<close>

type_synonym addr = nat

record State =
  stateType :: StateType
  end_time :: Time
  pendingCount :: uint32
  successCount :: uint32
  failureCount :: uint32

text \<open>
  The three Prometheus counters are only ever incremented by \<open>Inc()\<close>; each is modelled
  by the number of its increments.  The mutex is not a field: the model is sequential, and
  every function that runs under the lock is one atomic step.  \<open>name\<close> labels metrics and
  log lines only and is left out, as is logging.
\<close>

record CircuitBreaker =
  config :: Settings
  state :: addr
  heap :: "addr \<Rightarrow> State"
  nextAddr :: addr
  successCounter :: nat
  failureCounter :: nat
  fastFailCounter :: nat

text \<open>
  Panics are values.  The package's own code can panic in three ways: the run-time panic
  of an integer division by zero, \<open>panic("unknown state")\<close>, and the failed type
  assertion of a nil interface.  A panic of the caller's function carries the caller's value.
\<close>

datatype fault = IntegerDivideByZero | UnknownState | InterfaceConversion

datatype 'v panic = Fault fault | Raised 'v

text \<open>
  An \<open>error\<close> is \<open>None\<close> for \<open>nil\<close>, the package's sentinel \<open>ErrOpenState\<close>, or an
  error of the caller's with its message.
\<close>

datatype error = ErrOpenState | CallError string

text \<open>What the caller's function does: return its three values, or panic.\<close>

datatype ('r, 'v) outcome =
    Returns 'r "error option" Overloading
  | Panics 'v

section \<open>Operations\<close>

text \<open>
  \<open>uint32(d.Seconds())\<close> goes through \<open>float64\<close>.  A \<open>float64\<close> value is the real
  number it stands for, and an operation on such values returns the exact result rounded
  to the nearest number with a 53-bit significand, ties to the even one.  All values that
  occur here are zero or lie between \<open>2^-30\<close> and \<open>2^34\<close> in magnitude, far from overflow
  and from the subnormal numbers, so the exponent is not bounded in the model.

  \<open>log2floor n\<close> is the position of the leading bit of \<open>n\<close>, and \<open>binade x\<close> the \<open>e\<close> with
  \<open>2^e \<le> x < 2^(e+1)\<close> for a positive \<open>x\<close>.
\<close>

fun log2floor :: "nat \<Rightarrow> nat" where
  "log2floor n = (if n < 2 then 0 else Suc (log2floor (n div 2)))"

definition binade :: "real \<Rightarrow> int" where
  "binade x =
     (if 1 \<le> x then int (log2floor (nat \<lfloor>x\<rfloor>))
      else - int (Suc (log2floor (nat \<lceil>1 / x\<rceil> - 1))))"

definition roundEven :: "real \<Rightarrow> int" where
  "roundEven y =
     (if y - of_int \<lfloor>y\<rfloor> < 1 / 2 then \<lfloor>y\<rfloor>
      else if 1 / 2 < y - of_int \<lfloor>y\<rfloor> then \<lfloor>y\<rfloor> + 1
      else if even \<lfloor>y\<rfloor> then \<lfloor>y\<rfloor> else \<lfloor>y\<rfloor> + 1)"

definition float64 :: "real \<Rightarrow> real" where
  "float64 x =
     (if x = 0 then 0
      else if binade \<bar>x\<bar> \<le> 52
      then sgn x * of_int (roundEven (\<bar>x\<bar> * 2 ^ nat (52 - binade \<bar>x\<bar>)))
             / 2 ^ nat (52 - binade \<bar>x\<bar>)
      else sgn x * of_int (roundEven (\<bar>x\<bar> / 2 ^ nat (binade \<bar>x\<bar> - 52)))
             * 2 ^ nat (binade \<bar>x\<bar> - 52))"

text \<open>Go's integer \<open>/\<close> and \<open>%\<close>: the quotient is cut towards zero.\<close>

definition quo :: "int \<Rightarrow> int \<Rightarrow> int" where
  "quo a b = (if (a < 0) = (b < 0) then \<bar>a\<bar> div \<bar>b\<bar> else - (\<bar>a\<bar> div \<bar>b\<bar>))"

definition rem :: "int \<Rightarrow> int \<Rightarrow> int" where
  "rem a b = a - b * quo a b"

text \<open>
  \<open>Duration.Seconds\<close> of the standard library:
  \<^verbatim>\<open>sec := d / Second; nsec := d % Second; return float64(sec) + float64(nsec)/1e9\<close>
\<close>

definition Seconds :: "Duration \<Rightarrow> real" where
  "Seconds d =
     float64 (float64 (of_int (quo d 1000000000))
              + float64 (float64 (of_int (rem d 1000000000)) / 1000000000))"

text \<open>
  The conversion of a \<open>float64\<close> to \<open>uint32\<close> discards the fraction.  Go fixes the result
  only if the \<open>uint32\<close> can hold it, that is for a value above \<open>-1\<close> and below \<open>2^32\<close>;
  otherwise the result depends on the implementation, and the wrap-around written here is
  one of the possible results.
\<close>

definition discardFraction :: "real \<Rightarrow> int" where
  "discardFraction x = (if 0 \<le> x then \<lfloor>x\<rfloor> else - \<lfloor>- x\<rfloor>)"

definition uint32Convertible :: "Duration \<Rightarrow> bool" where
  "uint32Convertible d \<longleftrightarrow> - 1 < Seconds d \<and> Seconds d < 4294967296"

definition Seconds_uint32 :: "Duration \<Rightarrow> uint32" where
  "Seconds_uint32 d = word_of_int (discardFraction (Seconds d))"

text \<open>\<open>&State[T]{...}\<close>: a new object at an address no pointer holds yet.\<close>

definition alloc :: "State \<Rightarrow> CircuitBreaker \<Rightarrow> addr \<times> CircuitBreaker" where
  "alloc s cb =
     (nextAddr cb, cb\<lparr>heap := (heap cb)(nextAddr cb := s), nextAddr := Suc (nextAddr cb)\<rparr>)"

definition newState ::
  "Time \<Rightarrow> StateType \<Rightarrow> CircuitBreaker \<Rightarrow> (fault + addr) \<times> CircuitBreaker" where
  "newState now st cb =
     (if st = StateClosed then
        (case alloc \<lparr>stateType = st, end_time = now + ErrorRateWindow (config cb),
                      pendingCount = 0, successCount = 0, failureCount = 0\<rparr> cb
         of (a, cb') \<Rightarrow> (Inr a, cb'))
      else if st = StateOpen then
        (case alloc \<lparr>stateType = st, end_time = now + CoolDownInterval (config cb),
                      pendingCount = 0, successCount = 0, failureCount = 0\<rparr> cb
         of (a, cb') \<Rightarrow> (Inr a, cb'))
      else if st = StateHalfOpen then
        (case alloc \<lparr>stateType = st, end_time = 0,
                      pendingCount = 1, successCount = 0, failureCount = 0\<rparr> cb
         of (a, cb') \<Rightarrow> (Inr a, cb'))
      else (Inl UnknownState, cb))"

text \<open>\<open>return cb.newState(now, t), err\<close>: the second result is put beside the pointer.\<close>

definition returning ::
  "error option \<Rightarrow> (fault + addr) \<times> CircuitBreaker
     \<Rightarrow> (fault + addr \<times> error option) \<times> CircuitBreaker" where
  "returning err r =
     (case r of (Inl p, cb') \<Rightarrow> (Inl p, cb') | (Inr a, cb') \<Rightarrow> (Inr (a, err), cb'))"

text \<open>
  \<open>State.onRequest\<close>, with \<open>now\<close> the value \<open>time.Now()\<close> returns in it and \<open>a\<close> the
  receiver.  Go panics on the division when \<open>total\<close> is zero; HOL's \<open>div\<close> would return
  0 there, so the panic is written out.
\<close>

definition State_onRequest ::
  "Time \<Rightarrow> addr \<Rightarrow> CircuitBreaker \<Rightarrow> (fault + addr \<times> error option) \<times> CircuitBreaker" where
  "State_onRequest now a cb =
     (let s = heap cb a in
      if stateType s = StateClosed then
        (if end_time s < now then
           (let total = failureCount s + successCount s in
            if total = 0 then (Inl IntegerDivideByZero, cb)
            else
              (let observedErrorRatePct = failureCount s * 100 div total in
               if ErrorRateThresholdPct (config cb) > 0
                  \<and> total \<ge> Seconds_uint32 (ErrorRateWindow (config cb)) * MinQPSForOpen (config cb)
                  \<and> observedErrorRatePct \<ge> ErrorRateThresholdPct (config cb)
               then returning (Some ErrOpenState)
                      (newState now StateOpen (cb\<lparr>fastFailCounter := Suc (fastFailCounter cb)\<rparr>))
               else returning None (newState now StateClosed cb)))
         else (Inr (a, None), cb))
      else if stateType s = StateOpen then
        (if end_time s < now then returning None (newState now StateHalfOpen cb)
         else (Inr (a, Some ErrOpenState), cb\<lparr>fastFailCounter := Suc (fastFailCounter cb)\<rparr>))
      else if stateType s = StateHalfOpen then
        (if failureCount s > 0 then
           returning (Some ErrOpenState)
             (newState now StateOpen (cb\<lparr>fastFailCounter := Suc (fastFailCounter cb)\<rparr>))
         else if successCount s = HalfOpenSuccessCount (config cb) then
           returning None (newState now StateClosed cb)
         else if pendingCount s < HalfOpenSuccessCount (config cb) then
           (Inr (a, None), cb\<lparr>heap := (heap cb)(a := s\<lparr>pendingCount := pendingCount s + 1\<rparr>)\<rparr>)
         else (Inr (a, Some ErrOpenState), cb\<lparr>fastFailCounter := Suc (fastFailCounter cb)\<rparr>))
      else (Inl UnknownState, cb))"

text \<open>\<open>State.onResult\<close>; \<open>s.cb\<close> is the breaker.\<close>

definition State_onResult ::
  "Overloading \<Rightarrow> addr \<Rightarrow> CircuitBreaker \<Rightarrow> (fault + unit) \<times> CircuitBreaker" where
  "State_onResult ovl a cb =
     (let s = heap cb a in
      if ovl = No then
        (Inr (), cb\<lparr>heap := (heap cb)(a := s\<lparr>successCount := successCount s + 1\<rparr>),
                    successCounter := Suc (successCounter cb)\<rparr>)
      else if ovl = Yes then
        (Inr (), cb\<lparr>heap := (heap cb)(a := s\<lparr>failureCount := failureCount s + 1\<rparr>),
                    fastFailCounter := Suc (fastFailCounter cb)\<rparr>)
      else (Inl UnknownState, cb))"

text \<open>\<open>CircuitBreaker.onRequest\<close> and \<open>CircuitBreaker.onResult\<close>, each one locked section.\<close>

definition cb_onRequest ::
  "Time \<Rightarrow> CircuitBreaker \<Rightarrow> (fault + addr \<times> error option) \<times> CircuitBreaker" where
  "cb_onRequest now cb =
     (case State_onRequest now (state cb) cb of
        (Inl p, cb') \<Rightarrow> (Inl p, cb')
      | (Inr (a, err), cb') \<Rightarrow> (Inr (a, err), cb'\<lparr>state := a\<rparr>))"

definition cb_onResult ::
  "addr \<Rightarrow> Overloading \<Rightarrow> CircuitBreaker \<Rightarrow> (fault + unit) \<times> CircuitBreaker" where
  "cb_onResult a ovl cb =
     (if state cb = a then State_onResult ovl a cb else (Inr (), cb))"

text \<open>
  \<open>ExecuteAny\<close>.  The caller's function runs with the lock released, so whatever it or
  another goroutine does to the breaker in the meantime (a nested \<open>Execute\<close>, a request
  of another goroutine, \<open>ChangeSettings\<close>) happens between admission and recording: the
  function is a transformer of the breaker that yields an outcome.  An interface value is
  \<open>None\<close> for the nil interface.  The deferred function recovers a panic of the call and
  of \<open>cb.onResult\<close>, records \<open>Yes\<close> and panics again with the recovered value; a panic of
  \<open>cb.onRequest\<close> happens before the \<open>defer\<close> statement.  A recovered value is never
  nil: since Go 1.21 \<open>panic(nil)\<close> raises a run-time error value.
\<close>

definition ExecuteAny ::
  "Time \<Rightarrow> (CircuitBreaker \<Rightarrow> ('r option, 'v) outcome \<times> CircuitBreaker) \<Rightarrow> CircuitBreaker
     \<Rightarrow> ('v panic + 'r option \<times> error option) \<times> CircuitBreaker" where
  "ExecuteAny now call cb =
     (case cb_onRequest now cb of
        (Inl p, cb1) \<Rightarrow> (Inl (Fault p), cb1)
      | (Inr (a, Some err), cb1) \<Rightarrow> (Inr (None, Some err), cb1)
      | (Inr (a, None), cb1) \<Rightarrow>
          (case call cb1 of
             (Panics v, cb2) \<Rightarrow> (Inl (Raised v), snd (cb_onResult a Yes cb2))
           | (Returns result err ovl, cb2) \<Rightarrow>
               (case cb_onResult a ovl cb2 of
                  (Inl p, cb3) \<Rightarrow> (Inl (Fault p), snd (cb_onResult a Yes cb3))
                | (Inr u, cb3) \<Rightarrow> (Inr (result, err), cb3))))"

text \<open>
  The type parameter \<open>T\<close>: its zero value, and whether it is an interface type.  Converting
  a \<open>T\<close> to \<open>interface{}\<close> gives the nil interface exactly when \<open>T\<close> is an interface type and
  the value is its nil.  \<open>result.(T)\<close> panics on the nil interface; every other value that
  reaches it here was converted from a \<open>T\<close>.
\<close>

record 'r TypeParam =
  zeroValue :: 'r
  isInterface :: bool

definition toAny :: "'r TypeParam \<Rightarrow> 'r \<Rightarrow> 'r option" where
  "toAny T v = (if isInterface T \<and> v = zeroValue T then None else Some v)"

definition assertT :: "'r option \<Rightarrow> fault + 'r" where
  "assertT x = (case x of None \<Rightarrow> Inl InterfaceConversion | Some v \<Rightarrow> Inr v)"

text \<open>The closure \<open>Execute\<close> hands to \<open>ExecuteAny\<close>: the call, its result converted.\<close>

definition anyCall ::
  "'r TypeParam \<Rightarrow> (CircuitBreaker \<Rightarrow> ('r, 'v) outcome \<times> CircuitBreaker)
     \<Rightarrow> CircuitBreaker \<Rightarrow> ('r option, 'v) outcome \<times> CircuitBreaker" where
  "anyCall T call c =
     (case call c of
        (Returns res err ovl, c') \<Rightarrow> (Returns (toAny T res) err ovl, c')
      | (Panics v, c') \<Rightarrow> (Panics v, c'))"

definition Execute ::
  "'r TypeParam \<Rightarrow> Time \<Rightarrow> (CircuitBreaker \<Rightarrow> ('r, 'v) outcome \<times> CircuitBreaker) \<Rightarrow> CircuitBreaker
     \<Rightarrow> ('v panic + 'r \<times> error option) \<times> CircuitBreaker" where
  "Execute T now call cb =
     (case ExecuteAny now (anyCall T call) cb of
        (Inl p, cb') \<Rightarrow> (Inl p, cb')
      | (Inr (result, err), cb') \<Rightarrow>
          (if result = None then (Inr (zeroValue T, err), cb')
           else (case assertT result of
                   Inl p \<Rightarrow> (Inl (Fault p), cb')
                 | Inr v \<Rightarrow> (Inr (v, err), cb'))))"

text \<open>
  \<open>NewCircuitBreaker\<close> at time \<open>now\<close>: the first State is a Closed one.  Address 0 is
  the nil pointer the new breaker holds before that, and no object has been allocated.
  \<open>newState\<close> does not panic on \<open>StateClosed\<close>, so the second case is never taken.
\<close>

definition State_zero :: State where
  "State_zero =
     \<lparr>stateType = StateClosed, end_time = 0, pendingCount = 0, successCount = 0, failureCount = 0\<rparr>"

definition NewCircuitBreaker :: "Time \<Rightarrow> Settings \<Rightarrow> CircuitBreaker" where
  "NewCircuitBreaker now st =
     (case newState now StateClosed
             \<lparr>config = st, state = 0, heap = (\<lambda>_. State_zero), nextAddr = 1,
              successCounter = 0, failureCounter = 0, fastFailCounter = 0\<rparr> of
        (Inr a, cb) \<Rightarrow> cb\<lparr>state := a\<rparr>
      | (Inl p, cb) \<Rightarrow> cb)"

definition ChangeSettings :: "(Settings \<Rightarrow> Settings) \<Rightarrow> CircuitBreaker \<Rightarrow> CircuitBreaker" where
  "ChangeSettings apply_fn cb = cb\<lparr>config := apply_fn (config cb)\<rparr>"

section \<open>Observations used in the statements\<close>

text \<open>The three observability counters, as (success, failure, fast-fail).\<close>

definition counters :: "CircuitBreaker \<Rightarrow> nat \<times> nat \<times> nat" where
  "counters cb = (successCounter cb, failureCounter cb, fastFailCounter cb)"

text \<open>The object \<open>cb.state\<close> points to.\<close>

definition currentState :: "CircuitBreaker \<Rightarrow> State" where
  "currentState cb = heap cb (state cb)"

text \<open>The object \<open>newState\<close> builds: the given type, deadline and pending count, no outcomes.\<close>

definition freshState :: "StateType \<Rightarrow> Time \<Rightarrow> uint32 \<Rightarrow> State" where
  "freshState t e p =
     \<lparr>stateType = t, end_time = e, pendingCount = p, successCount = 0, failureCount = 0\<rparr>"

text \<open>
  The condition of the \<open>if\<close> in the Closed branch of \<open>State.onRequest\<close>, on the
  \<open>uint32\<close> values the code computes.
\<close>

definition tripCondition :: "Settings \<Rightarrow> State \<Rightarrow> bool" where
  "tripCondition cfg s \<longleftrightarrow>
     ErrorRateThresholdPct cfg > 0
     \<and> failureCount s + successCount s \<ge> Seconds_uint32 (ErrorRateWindow cfg) * MinQPSForOpen cfg
     \<and> failureCount s * 100 div (failureCount s + successCount s) \<ge> ErrorRateThresholdPct cfg"



text \<open>
  The breaker after the assignment \<open>cb.state = cb.newState(now, t)\<close>: the new object is
  the current one; nothing else of the breaker changes.
\<close>

definition enter :: "StateType \<Rightarrow> Time \<Rightarrow> uint32 \<Rightarrow> CircuitBreaker \<Rightarrow> CircuitBreaker" where
  "enter t e p cb =
     cb\<lparr>heap := (heap cb)(nextAddr cb := freshState t e p),
        nextAddr := Suc (nextAddr cb), state := nextAddr cb\<rparr>"

text \<open>The breaker after \<open>cb.fastFailCounter.Inc()\<close>.\<close>

definition incFastFail :: "CircuitBreaker \<Rightarrow> CircuitBreaker" where
  "incFastFail cb = cb\<lparr>fastFailCounter := Suc (fastFailCounter cb)\<rparr>"

text \<open>
  Every object allocated so far lies below \<open>nextAddr\<close>; in a breaker built by
  \<open>NewCircuitBreaker\<close> and used through its operations the current State is one of them.
\<close>

definition wellFormed :: "CircuitBreaker \<Rightarrow> bool" where
  "wellFormed cb \<longleftrightarrow> 0 < state cb \<and> state cb < nextAddr cb"


section \<open>Concrete breakers\<close>

text \<open>
  The settings of the specification's example: threshold 50 percent, one request per second,
  a window of one second; with a cooldown of two seconds and three probes.
\<close>

definition cfg0 :: Settings where
  "cfg0 = \<lparr>ErrorRateThresholdPct = 50, MinQPSForOpen = 1, ErrorRateWindow = 1000000000,
            CoolDownInterval = 2000000000, HalfOpenSuccessCount = 3\<rparr>"

text \<open>A breaker that has counted nothing yet and whose current State object is \<open>s\<close>.\<close>

definition breakerWith :: "Settings \<Rightarrow> State \<Rightarrow> CircuitBreaker" where
  "breakerWith cfg s =
     \<lparr>config = cfg, state = 1, heap = (\<lambda>_. State_zero)(1 := s), nextAddr = 2,
      successCounter = 0, failureCounter = 0, fastFailCounter = 0\<rparr>"

text \<open>A type parameter that is not an interface type: \<open>int\<close>, with zero value 0.\<close>

definition T_int :: "int TypeParam" where
  "T_int = \<lparr>zeroValue = 0, isInterface = False\<rparr>"

text \<open>
  A type parameter that is an interface type, \<open>fmt.Stringer\<close> say: a value is nil or
  holds something with a string form.
\<close>

definition T_iface :: "string option TypeParam" where
  "T_iface = \<lparr>zeroValue = None, isInterface = True\<rparr>"

text \<open>A Closed State object created at time 0 that has recorded one success.\<close>

definition closedOneSuccess :: State where
  "closedOneSuccess =
     \<lparr>stateType = StateClosed, end_time = 1000000000, pendingCount = 0,
      successCount = 1, failureCount = 0\<rparr>"

text \<open>A caller's function that returns 7 and reports no overload.\<close>

definition okCall :: "CircuitBreaker \<Rightarrow> (int, string) outcome \<times> CircuitBreaker" where
  "okCall c = (Returns 7 None No, c)"

text \<open>
  A caller's function that takes until 1.5 s, then makes a call of its own through the
  same breaker and returns 7, reporting no overload; a panic of the inner call is its panic.
\<close>

definition nestedCall :: "CircuitBreaker \<Rightarrow> (int, string) outcome \<times> CircuitBreaker" where
  "nestedCall c =
     (case Execute T_int 1500000000 okCall c of
        (Inr r, c') \<Rightarrow> (Returns 7 None No, c')
      | (Inl (Raised v), c') \<Rightarrow> (Panics v, c')
      | (Inl (Fault f), c') \<Rightarrow> (Panics ''runtime error'', c'))"

text \<open>
  A caller's function that takes until 1.5 s, makes a call of its own through the same
  breaker and then panics.
\<close>

definition nestedPanicCall :: "CircuitBreaker \<Rightarrow> (int, string) outcome \<times> CircuitBreaker" where
  "nestedPanicCall c =
     (case Execute T_int 1500000000 okCall c of (r, c') \<Rightarrow> (Panics ''boom'', c'))"

text \<open>A breaker created at time 0 and used for one successful call right away.\<close>

definition usedOnce :: CircuitBreaker where
  "usedOnce = snd (Execute T_int 1 okCall (NewCircuitBreaker 0 cfg0))"


section \<open>The window in seconds\<close>

declare log2floor.simps [simp del]

text \<open>\<open>binade\<close> finds the power of two below a positive number.\<close>

lemma log2floor_bounds:
  "0 < n \<Longrightarrow> 2 ^ log2floor n \<le> n \<and> n < 2 ^ Suc (log2floor n)"
proof (induction n rule: log2floor.induct)
  case (1 n)
  show ?case
  proof (cases "n < 2")
    case True
    with 1(2) have "n = 1" by simp
    then show ?thesis by (simp add: log2floor.simps)
  next
    case False
    then have p: "0 < n div 2" by simp
    from 1(1) [OF False p]
    have l: "2 ^ log2floor (n div 2) \<le> n div 2" and u: "n div 2 < 2 ^ Suc (log2floor (n div 2))"
      by simp_all
    have e: "log2floor n = Suc (log2floor (n div 2))"
      using False by (subst log2floor.simps) simp
    from l have "2 * 2 ^ log2floor (n div 2) \<le> n" by linarith
    moreover from u have "n < 2 * 2 ^ Suc (log2floor (n div 2))" by linarith
    ultimately show ?thesis by (simp add: e)
  qed
qed

lemma binade_ge_1:
  assumes "1 \<le> x"
  shows "0 \<le> binade x" "2 ^ nat (binade x) \<le> x" "x < 2 * 2 ^ nat (binade x)"
proof -
  let ?n = "nat \<lfloor>x\<rfloor>"
  from assms have n: "0 < ?n" by simp
  have b: "binade x = int (log2floor ?n)" using assms by (simp add: binade_def)
  show "0 \<le> binade x" by (simp add: b)
  from log2floor_bounds [OF n]
  have l: "2 ^ log2floor ?n \<le> ?n" and u: "?n < 2 ^ Suc (log2floor ?n)" by simp_all
  from assms have f: "real ?n \<le> x" "x < real ?n + 1" by linarith+
  from l have "(2::real) ^ log2floor ?n \<le> real ?n"
    by (metis of_nat_le_iff of_nat_numeral of_nat_power)
  with f have "(2::real) ^ log2floor ?n \<le> x" by linarith
  then show "2 ^ nat (binade x) \<le> x" by (simp add: b)
  from u have "?n + 1 \<le> 2 ^ Suc (log2floor ?n)" by simp
  then have "real (?n + 1) \<le> (2::real) ^ Suc (log2floor ?n)"
    by (metis of_nat_le_iff of_nat_numeral of_nat_power)
  then have "real ?n + 1 \<le> (2::real) ^ Suc (log2floor ?n)" by simp
  with f(2) have "x < (2::real) ^ Suc (log2floor ?n)" by linarith
  then show "x < 2 * 2 ^ nat (binade x)" by (simp add: b)
qed

lemma binade_lt_1:
  assumes "0 < x" "x < 1"
  shows "binade x < 0" "1 / 2 ^ nat (- binade x) \<le> x" "x < 2 / 2 ^ nat (- binade x)"
proof -
  let ?m = "nat \<lceil>1 / x\<rceil> - 1"
  let ?k = "log2floor ?m"
  from assms have y: "1 < 1 / x" by simp
  then have c: "2 \<le> \<lceil>1 / x\<rceil>" by linarith
  then have m: "0 < ?m" by simp
  have b: "binade x = - int (Suc ?k)" using assms by (simp add: binade_def)
  show "binade x < 0" by (simp add: b)
  have nb: "nat (- binade x) = Suc ?k" by (simp add: b)
  from log2floor_bounds [OF m]
  have l: "2 ^ ?k \<le> ?m" and u: "?m < 2 ^ Suc ?k" by simp_all
  have r: "real ?m < 1 / x" "1 / x \<le> real ?m + 1"
    using c by linarith+
  from u have "?m + 1 \<le> 2 ^ Suc ?k" by simp
  then have "real (?m + 1) \<le> (2::real) ^ Suc ?k"
    by (metis of_nat_le_iff of_nat_numeral of_nat_power)
  with r have "1 / x \<le> (2::real) ^ Suc ?k" by simp
  with assms have "1 \<le> x * (2::real) ^ Suc ?k"
    by (simp add: field_simps)
  then show "1 / 2 ^ nat (- binade x) \<le> x"
    unfolding nb by (simp add: field_simps)
  from l have "(2::real) ^ ?k \<le> real ?m"
    by (metis of_nat_le_iff of_nat_numeral of_nat_power)
  with r have "(2::real) ^ ?k < 1 / x" by linarith
  with assms have "x * (2::real) ^ ?k < 1" by (simp add: field_simps)
  then show "x < 2 / 2 ^ nat (- binade x)"
    unfolding nb by (simp add: field_simps)
qed

lemma roundEven_nearest: "\<bar>of_int (roundEven y) - y\<bar> \<le> 1 / 2"
  unfolding roundEven_def by (simp; linarith)

text \<open>
  One second is 1, and 1.5 s is 1.5, of which the conversion keeps 1.  The two cases in
  which whole seconds computed on integers would differ: half a second before zero is
  \<open>-0.5\<close> and converts to 0, and a nanosecond less than 16777217 s is rounded up to
  16777217.
\<close>

lemma quo_rem_values:
  "quo 1000000000 1000000000 = 1" "rem 1000000000 1000000000 = 0"
  "quo 1500000000 1000000000 = 1" "rem 1500000000 1000000000 = 500000000"
  "quo (- 500000000) 1000000000 = 0" "rem (- 500000000) 1000000000 = - 500000000"
  "quo 16777216999999999 1000000000 = 16777216"
  "rem 16777216999999999 1000000000 = 999999999"
  by (simp_all add: quo_def rem_def)

lemma binade_values:
  "binade 1 = 0" "binade (1 / 2) = - 1" "binade (3 / 2) = 0" "binade 500000000 = 28"
  "binade 16777216 = 24" "binade 999999999 = 29" "binade (999999999 / 1000000000) = - 1"
  "binade (151115736459027892572065 / 9007199254740992) = 24"
  by (simp_all add: binade_def log2floor.simps)

lemma float64_values:
  "float64 0 = 0" "float64 1 = 1" "float64 (1 / 2) = 1 / 2" "float64 (3 / 2) = 3 / 2"
  "float64 500000000 = 500000000" "float64 (- 500000000) = - 500000000"
  "float64 (- (1 / 2)) = - (1 / 2)"
  "float64 16777216 = 16777216" "float64 999999999 = 999999999"
  "float64 (999999999 / 1000000000) = 9007199245733793 / 9007199254740992"
  "float64 (151115736459027892572065 / 9007199254740992) = 16777217"
  by (simp_all add: float64_def binade_values roundEven_def)

lemma Seconds_values:
  "Seconds 1000000000 = 1" "Seconds 1500000000 = 3 / 2" "Seconds (- 500000000) = - (1 / 2)"
  "Seconds 16777216999999999 = 16777217"
  by (simp_all add: Seconds_def quo_rem_values float64_values)

lemma Seconds_uint32_values [simp]:
  "Seconds_uint32 1000000000 = 1" "Seconds_uint32 1500000000 = 1"
  "Seconds_uint32 (- 500000000) = 0" "Seconds_uint32 16777216999999999 = 16777217"
  by (simp_all add: Seconds_uint32_def Seconds_values discardFraction_def)

lemma uint32Convertible_values [simp]:
  "uint32Convertible 1000000000" "uint32Convertible 1500000000"
  by (simp_all add: uint32Convertible_def Seconds_values)

section \<open>The branches of the state machine\<close>

lemma StateType_distinct [simp]:
  "StateClosed \<noteq> StateOpen" "StateOpen \<noteq> StateClosed"
  "StateClosed \<noteq> StateHalfOpen" "StateHalfOpen \<noteq> StateClosed"
  "StateOpen \<noteq> StateHalfOpen" "StateHalfOpen \<noteq> StateOpen"
  by (simp_all add: StateClosed_def StateOpen_def StateHalfOpen_def)

lemma Overloading_distinct [simp]: "No \<noteq> Yes" "Yes \<noteq> No"
  by (simp_all add: No_def Yes_def)


lemma newState_Closed:
  "newState now StateClosed cb =
     (Inr (nextAddr cb),
      cb\<lparr>heap := (heap cb)(nextAddr cb := freshState StateClosed (now + ErrorRateWindow (config cb)) 0),
         nextAddr := Suc (nextAddr cb)\<rparr>)"
  by (simp add: newState_def alloc_def freshState_def)

lemma newState_Open:
  "newState now StateOpen cb =
     (Inr (nextAddr cb),
      cb\<lparr>heap := (heap cb)(nextAddr cb := freshState StateOpen (now + CoolDownInterval (config cb)) 0),
         nextAddr := Suc (nextAddr cb)\<rparr>)"
  by (simp add: newState_def alloc_def freshState_def)

lemma newState_HalfOpen:
  "newState now StateHalfOpen cb =
     (Inr (nextAddr cb),
      cb\<lparr>heap := (heap cb)(nextAddr cb := freshState StateHalfOpen 0 1),
         nextAddr := Suc (nextAddr cb)\<rparr>)"
  by (simp add: newState_def alloc_def freshState_def)

lemmas newState_simps = newState_Closed newState_Open newState_HalfOpen

lemma onRequest_Closed:
  assumes "stateType (currentState cb) = StateClosed"
  shows "cb_onRequest now cb =
     (if end_time (currentState cb) < now then
        if failureCount (currentState cb) + successCount (currentState cb) = 0
        then (Inl IntegerDivideByZero, cb)
        else if tripCondition (config cb) (currentState cb)
        then (Inr (nextAddr cb, Some ErrOpenState),
              enter StateOpen (now + CoolDownInterval (config cb)) 0 (incFastFail cb))
        else (Inr (nextAddr cb, None),
              enter StateClosed (now + ErrorRateWindow (config cb)) 0 cb)
      else (Inr (state cb, None), cb))"
  using assms
  by (simp add: cb_onRequest_def State_onRequest_def currentState_def returning_def newState_simps
      tripCondition_def Let_def enter_def incFastFail_def)

lemma onRequest_Open:
  assumes "stateType (currentState cb) = StateOpen"
  shows "cb_onRequest now cb =
     (if end_time (currentState cb) < now
      then (Inr (nextAddr cb, None), enter StateHalfOpen 0 1 cb)
      else (Inr (state cb, Some ErrOpenState), incFastFail cb))"
  using assms
  by (simp add: cb_onRequest_def State_onRequest_def currentState_def returning_def newState_simps
      Let_def enter_def incFastFail_def)

lemma onRequest_HalfOpen:
  assumes "stateType (currentState cb) = StateHalfOpen"
  shows "cb_onRequest now cb =
     (if failureCount (currentState cb) > 0
      then (Inr (nextAddr cb, Some ErrOpenState),
            enter StateOpen (now + CoolDownInterval (config cb)) 0 (incFastFail cb))
      else if successCount (currentState cb) = HalfOpenSuccessCount (config cb)
      then (Inr (nextAddr cb, None), enter StateClosed (now + ErrorRateWindow (config cb)) 0 cb)
      else if pendingCount (currentState cb) < HalfOpenSuccessCount (config cb)
      then (Inr (state cb, None),
            cb\<lparr>heap := (heap cb)(state cb :=
                 (currentState cb)\<lparr>pendingCount := pendingCount (currentState cb) + 1\<rparr>)\<rparr>)
      else (Inr (state cb, Some ErrOpenState), incFastFail cb))"
  using assms
  by (simp add: cb_onRequest_def State_onRequest_def currentState_def returning_def newState_simps
      Let_def enter_def incFastFail_def)

lemma onRequest_unknown:
  assumes "stateType (currentState cb) \<noteq> StateClosed" "stateType (currentState cb) \<noteq> StateOpen"
    "stateType (currentState cb) \<noteq> StateHalfOpen"
  shows "cb_onRequest now cb = (Inl UnknownState, cb)"
  using assms
  by (simp add: cb_onRequest_def State_onRequest_def currentState_def Let_def)

text \<open>What a transition leaves behind.\<close>

lemma enter_simps [simp]:
  "state (enter t e p cb) = nextAddr cb"
  "nextAddr (enter t e p cb) = Suc (nextAddr cb)"
  "currentState (enter t e p cb) = freshState t e p"
  "config (enter t e p cb) = config cb"
  "counters (enter t e p cb) = counters cb"
  "a \<noteq> nextAddr cb \<Longrightarrow> heap (enter t e p cb) a = heap cb a"
  by (simp_all add: enter_def currentState_def counters_def)

lemma incFastFail_simps [simp]:
  "state (incFastFail cb) = state cb"
  "nextAddr (incFastFail cb) = nextAddr cb"
  "heap (incFastFail cb) = heap cb"
  "currentState (incFastFail cb) = currentState cb"
  "config (incFastFail cb) = config cb"
  "counters (incFastFail cb) = (successCounter cb, failureCounter cb, Suc (fastFailCounter cb))"
  by (simp_all add: incFastFail_def currentState_def counters_def)

lemma counters_update [simp]:
  "counters (cb\<lparr>heap := h\<rparr>) = counters cb"
  "counters (cb\<lparr>state := a\<rparr>) = counters cb"
  "counters (cb\<lparr>config := c\<rparr>) = counters cb"
  by (simp_all add: counters_def)

lemma breakerWith_simps [simp]:
  "state (breakerWith cfg s) = 1"
  "nextAddr (breakerWith cfg s) = 2"
  "currentState (breakerWith cfg s) = s"
  "heap (breakerWith cfg s) (Suc 0) = s"
  "config (breakerWith cfg s) = cfg"
  "counters (breakerWith cfg s) = (0, 0, 0)"
  "successCounter (breakerWith cfg s) = 0"
  "failureCounter (breakerWith cfg s) = 0"
  "fastFailCounter (breakerWith cfg s) = 0"
  by (simp_all add: breakerWith_def currentState_def counters_def)

lemma cfg0_simps [simp]:
  "ErrorRateThresholdPct cfg0 = 50"
  "MinQPSForOpen cfg0 = 1"
  "ErrorRateWindow cfg0 = 1000000000"
  "CoolDownInterval cfg0 = 2000000000"
  "HalfOpenSuccessCount cfg0 = 3"
  by (simp_all add: cfg0_def)

lemma TypeParam_simps [simp]:
  "zeroValue T_int = 0" "\<not> isInterface T_int"
  "zeroValue T_iface = None" "isInterface T_iface"
  by (simp_all add: T_int_def T_iface_def)

lemma closedOneSuccess_simps [simp]:
  "stateType closedOneSuccess = StateClosed"
  "end_time closedOneSuccess = 1000000000"
  "pendingCount closedOneSuccess = 0"
  "successCount closedOneSuccess = 1"
  "failureCount closedOneSuccess = 0"
  by (simp_all add: closedOneSuccess_def)

lemma currentState_heap_update [simp]:
  "currentState (cb\<lparr>heap := h\<rparr>) = h (state cb)"
  by (simp add: currentState_def)

lemma freshState_simps [simp]:
  "stateType (freshState t e p) = t"
  "end_time (freshState t e p) = e"
  "pendingCount (freshState t e p) = p"
  "successCount (freshState t e p) = 0"
  "failureCount (freshState t e p) = 0"
  by (simp_all add: freshState_def)

text \<open>
  Every result of an admission evaluation: a panic that leaves the breaker as it was, an
  admission that touches no counter, or a rejection with the sentinel and one more fast-fail.
\<close>

lemma cb_onRequest_results:
  "(\<exists>p. cb_onRequest now cb = (Inl p, cb) \<and> (p = IntegerDivideByZero \<or> p = UnknownState))
   \<or> (\<exists>a cb1. cb_onRequest now cb = (Inr (a, None), cb1) \<and> state cb1 = a
          \<and> counters cb1 = counters cb)
   \<or> (\<exists>a cb1. cb_onRequest now cb = (Inr (a, Some ErrOpenState), cb1) \<and> state cb1 = a
          \<and> counters cb1 = (successCounter cb, failureCounter cb, Suc (fastFailCounter cb)))"
proof -
  consider (closed) "stateType (currentState cb) = StateClosed"
    | (opened) "stateType (currentState cb) = StateOpen"
    | (half) "stateType (currentState cb) = StateHalfOpen"
    | (other) "stateType (currentState cb) \<noteq> StateClosed" "stateType (currentState cb) \<noteq> StateOpen"
        "stateType (currentState cb) \<noteq> StateHalfOpen"
    by blast
  then show ?thesis
  proof cases
    case closed
    show ?thesis by (simp add: onRequest_Closed [OF closed])
  next
    case opened
    show ?thesis by (simp add: onRequest_Open [OF opened])
  next
    case half
    show ?thesis by (simp add: onRequest_HalfOpen [OF half])
  next
    case other
    show ?thesis by (simp add: onRequest_unknown [OF other])
  qed
qed


text \<open>
  Pointers are never reused: an admission evaluation leaves the current pointer where it
  was or moves it to an object allocated just then, so a State that has been superseded
  does not become current again.
\<close>

lemma NewCircuitBreaker_wellFormed: "wellFormed (NewCircuitBreaker now st)"
  by (simp add: NewCircuitBreaker_def newState_Closed wellFormed_def)

lemma cb_onRequest_state:
  "state (snd (cb_onRequest now cb)) = state cb
   \<or> state (snd (cb_onRequest now cb)) = nextAddr cb
      \<and> nextAddr (snd (cb_onRequest now cb)) = Suc (nextAddr cb)"
proof -
  consider (closed) "stateType (currentState cb) = StateClosed"
    | (opened) "stateType (currentState cb) = StateOpen"
    | (half) "stateType (currentState cb) = StateHalfOpen"
    | (other) "stateType (currentState cb) \<noteq> StateClosed" "stateType (currentState cb) \<noteq> StateOpen"
        "stateType (currentState cb) \<noteq> StateHalfOpen"
    by blast
  then show ?thesis
  proof cases
    case closed
    show ?thesis by (simp add: onRequest_Closed [OF closed])
  next
    case opened
    show ?thesis by (simp add: onRequest_Open [OF opened])
  next
    case half
    show ?thesis by (simp add: onRequest_HalfOpen [OF half])
  next
    case other
    show ?thesis by (simp add: onRequest_unknown [OF other])
  qed
qed

lemma cb_onRequest_nextAddr: "nextAddr cb \<le> nextAddr (snd (cb_onRequest now cb))"
proof -
  consider (closed) "stateType (currentState cb) = StateClosed"
    | (opened) "stateType (currentState cb) = StateOpen"
    | (half) "stateType (currentState cb) = StateHalfOpen"
    | (other) "stateType (currentState cb) \<noteq> StateClosed" "stateType (currentState cb) \<noteq> StateOpen"
        "stateType (currentState cb) \<noteq> StateHalfOpen"
    by blast
  then show ?thesis
  proof cases
    case closed
    show ?thesis by (simp add: onRequest_Closed [OF closed])
  next
    case opened
    show ?thesis by (simp add: onRequest_Open [OF opened])
  next
    case half
    show ?thesis by (simp add: onRequest_HalfOpen [OF half])
  next
    case other
    show ?thesis by (simp add: onRequest_unknown [OF other])
  qed
qed

lemma cb_onRequest_wellFormed:
  assumes "wellFormed cb"
  shows "wellFormed (snd (cb_onRequest now cb))"
  using assms cb_onRequest_state [of now cb] cb_onRequest_nextAddr [of cb now]
  by (auto simp: wellFormed_def)

lemma superseded_stays_superseded:
  assumes "wellFormed cb" and "a < nextAddr cb" and "state cb \<noteq> a"
  shows "state (snd (cb_onRequest now cb)) \<noteq> a"
  using assms cb_onRequest_state [of now cb] by auto

section \<open>Closed: the evaluation at the end of a window\<close>

text \<open>
  Claim C1.  A Closed sojourn whose window has elapsed with no outcome recorded should be
  evaluated without a fault and followed by a fresh Closed sojourn that admits the request.
  The code divides by \<open>total\<close> before it looks at the threshold: a breaker created at
  time 0 with a window of one second and first used after two seconds panics with an
  integer division by zero in the admission evaluation.  The breaker is left as it was, the
  caller's function is not run, and \<open>Execute\<close> does not return.
\<close>

theorem closed_window_without_requests_panics:
  "cb_onRequest 2000000000 (NewCircuitBreaker 0 cfg0)
     = (Inl IntegerDivideByZero, NewCircuitBreaker 0 cfg0)
   \<and> Execute T 2000000000 call (NewCircuitBreaker 0 cfg0)
     = (Inl (Fault IntegerDivideByZero), NewCircuitBreaker 0 cfg0)"
proof -
  have c: "stateType (currentState (NewCircuitBreaker 0 cfg0)) = StateClosed"
    by (simp add: NewCircuitBreaker_def newState_def alloc_def currentState_def)
  have r: "cb_onRequest 2000000000 (NewCircuitBreaker 0 cfg0)
             = (Inl IntegerDivideByZero, NewCircuitBreaker 0 cfg0)"
    by (simp add: onRequest_Closed [OF c])
      (simp add: NewCircuitBreaker_def newState_def alloc_def currentState_def)
  show ?thesis
    by (simp add: r Execute_def ExecuteAny_def)
qed

text \<open>The same for every Closed State object whose window has elapsed with a zero total.\<close>

lemma onRequest_Closed_zero_total:
  assumes "stateType (currentState cb) = StateClosed" "end_time (currentState cb) < now"
    "failureCount (currentState cb) + successCount (currentState cb) = 0"
  shows "cb_onRequest now cb = (Inl IntegerDivideByZero, cb)"
  using assms by (simp add: onRequest_Closed)






section \<open>Open and HalfOpen\<close>



text \<open>
  Claim C4.  While the current State \<open>s\<close> is HalfOpen: if \<open>failureCount s > 0\<close> the
  breaker goes back to Open with deadline \<open>now + CoolDownInterval\<close> and rejects; else if
  \<open>successCount s = HalfOpenSuccessCount\<close> it starts a fresh Closed sojourn with zeroed
  counters and admits; else if \<open>pendingCount s < HalfOpenSuccessCount\<close> it increments
  \<open>pendingCount\<close> of the same State object and admits; otherwise it rejects and the
  State stays the HalfOpen one.  Both rejections count a fast-fail.
\<close>

theorem halfopen_evaluation:
  assumes "stateType (currentState cb) = StateHalfOpen"
  shows
    "(failureCount (currentState cb) > 0 \<longrightarrow>
        cb_onRequest now cb
          = (Inr (nextAddr cb, Some ErrOpenState),
             enter StateOpen (now + CoolDownInterval (config cb)) 0 (incFastFail cb)))
     \<and> (failureCount (currentState cb) = 0
          \<and> successCount (currentState cb) = HalfOpenSuccessCount (config cb) \<longrightarrow>
        cb_onRequest now cb
          = (Inr (nextAddr cb, None), enter StateClosed (now + ErrorRateWindow (config cb)) 0 cb))
     \<and> (failureCount (currentState cb) = 0
          \<and> successCount (currentState cb) \<noteq> HalfOpenSuccessCount (config cb)
          \<and> pendingCount (currentState cb) < HalfOpenSuccessCount (config cb) \<longrightarrow>
        cb_onRequest now cb
          = (Inr (state cb, None),
             cb\<lparr>heap := (heap cb)(state cb :=
                  (currentState cb)\<lparr>pendingCount := pendingCount (currentState cb) + 1\<rparr>)\<rparr>))
     \<and> (failureCount (currentState cb) = 0
          \<and> successCount (currentState cb) \<noteq> HalfOpenSuccessCount (config cb)
          \<and> \<not> pendingCount (currentState cb) < HalfOpenSuccessCount (config cb) \<longrightarrow>
        cb_onRequest now cb = (Inr (state cb, Some ErrOpenState), incFastFail cb))"
  using assms by (simp add: onRequest_HalfOpen word_greater_zero_iff)

text \<open>
  With \<open>HalfOpenSuccessCount = 3\<close>: one failed probe sends the breaker back to Open; three
  successes close it; after one success and two admitted probes a third probe is admitted;
  after one success and three admitted probes the request is rejected.
\<close>

theorem halfopen_evaluation_witness:
  "cb_onRequest 9 (breakerWith cfg0 \<lparr>stateType = StateHalfOpen, end_time = 0, pendingCount = 2,
                                      successCount = 1, failureCount = 1\<rparr>)
     = (Inr (2, Some ErrOpenState),
        enter StateOpen 2000000009 0
          (incFastFail (breakerWith cfg0 \<lparr>stateType = StateHalfOpen, end_time = 0, pendingCount = 2,
                                            successCount = 1, failureCount = 1\<rparr>)))
   \<and> cb_onRequest 9 (breakerWith cfg0 \<lparr>stateType = StateHalfOpen, end_time = 0, pendingCount = 3,
                                        successCount = 3, failureCount = 0\<rparr>)
     = (Inr (2, None),
        enter StateClosed 1000000009 0
          (breakerWith cfg0 \<lparr>stateType = StateHalfOpen, end_time = 0, pendingCount = 3,
                               successCount = 3, failureCount = 0\<rparr>))
   \<and> fst (cb_onRequest 9 (breakerWith cfg0 \<lparr>stateType = StateHalfOpen, end_time = 0, pendingCount = 2,
                                             successCount = 1, failureCount = 0\<rparr>))
     = Inr (1, None)
   \<and> currentState (snd (cb_onRequest 9 (breakerWith cfg0
          \<lparr>stateType = StateHalfOpen, end_time = 0, pendingCount = 2,
           successCount = 1, failureCount = 0\<rparr>)))
     = \<lparr>stateType = StateHalfOpen, end_time = 0, pendingCount = 3, successCount = 1, failureCount = 0\<rparr>
   \<and> cb_onRequest 9 (breakerWith cfg0 \<lparr>stateType = StateHalfOpen, end_time = 0, pendingCount = 3,
                                        successCount = 1, failureCount = 0\<rparr>)
     = (Inr (1, Some ErrOpenState),
        incFastFail (breakerWith cfg0 \<lparr>stateType = StateHalfOpen, end_time = 0, pendingCount = 3,
                                         successCount = 1, failureCount = 0\<rparr>))"
  using
    halfopen_evaluation
      [of "breakerWith cfg0 \<lparr>stateType = StateHalfOpen, end_time = 0, pendingCount = 2,
                              successCount = 1, failureCount = 1\<rparr>" 9]
    halfopen_evaluation
      [of "breakerWith cfg0 \<lparr>stateType = StateHalfOpen, end_time = 0, pendingCount = 3,
                              successCount = 3, failureCount = 0\<rparr>" 9]
    halfopen_evaluation
      [of "breakerWith cfg0 \<lparr>stateType = StateHalfOpen, end_time = 0, pendingCount = 2,
                              successCount = 1, failureCount = 0\<rparr>" 9]
    halfopen_evaluation
      [of "breakerWith cfg0 \<lparr>stateType = StateHalfOpen, end_time = 0, pendingCount = 3,
                              successCount = 1, failureCount = 0\<rparr>" 9]
  by simp

text \<open>
  Claim C9.  With \<open>HalfOpenSuccessCount = 0\<close>, an evaluation of a HalfOpen State that has
  recorded no success and no failure starts a fresh Closed sojourn and admits the request:
  the condition \<open>successCount = HalfOpenSuccessCount\<close> holds before any probe has reported.
\<close>

theorem halfopen_zero_probes_closes:
  assumes "stateType (currentState cb) = StateHalfOpen"
    and "HalfOpenSuccessCount (config cb) = 0"
    and "successCount (currentState cb) = 0"
    and "failureCount (currentState cb) = 0"
  shows "cb_onRequest now cb
           = (Inr (nextAddr cb, None), enter StateClosed (now + ErrorRateWindow (config cb)) 0 cb)
         \<and> stateType (currentState (enter StateClosed (now + ErrorRateWindow (config cb)) 0 cb))
           = StateClosed"
  using assms by (simp add: onRequest_HalfOpen)

text \<open>
  An Open breaker with \<open>HalfOpenSuccessCount = 0\<close> whose cooldown has elapsed: the first
  request makes it HalfOpen, and the second one, evaluated while that probe is still in
  flight, closes it.
\<close>

theorem halfopen_zero_probes_closes_witness:
  "fst (cb_onRequest 3000000001
          (breakerWith (cfg0\<lparr>HalfOpenSuccessCount := 0\<rparr>) (freshState StateOpen 3000000000 0)))
     = Inr (2, None)
   \<and> stateType (currentState (snd (cb_onRequest 3000000001
          (breakerWith (cfg0\<lparr>HalfOpenSuccessCount := 0\<rparr>) (freshState StateOpen 3000000000 0)))))
     = StateHalfOpen
   \<and> fst (cb_onRequest 3000000002 (snd (cb_onRequest 3000000001
          (breakerWith (cfg0\<lparr>HalfOpenSuccessCount := 0\<rparr>) (freshState StateOpen 3000000000 0)))))
     = Inr (3, None)
   \<and> currentState (snd (cb_onRequest 3000000002 (snd (cb_onRequest 3000000001
          (breakerWith (cfg0\<lparr>HalfOpenSuccessCount := 0\<rparr>) (freshState StateOpen 3000000000 0))))))
     = freshState StateClosed 4000000002 0"
proof -
  let ?cb = "breakerWith (cfg0\<lparr>HalfOpenSuccessCount := 0\<rparr>) (freshState StateOpen 3000000000 0)"
  have o: "stateType (currentState ?cb) = StateOpen" by simp
  have r: "cb_onRequest 3000000001 ?cb = (Inr (2, None), enter StateHalfOpen 0 1 ?cb)"
    by (simp add: onRequest_Open [OF o])
  show ?thesis
    using halfopen_zero_probes_closes [of "enter StateHalfOpen 0 1 ?cb" 3000000002]
    by (simp add: r)
qed


section \<open>Recording outcomes\<close>

lemma State_onResult_No:
  "State_onResult No a cb =
     (Inr (), cb\<lparr>heap := (heap cb)(a := (heap cb a)\<lparr>successCount := successCount (heap cb a) + 1\<rparr>),
                 successCounter := Suc (successCounter cb)\<rparr>)"
  by (simp add: State_onResult_def Let_def)

lemma State_onResult_Yes:
  "State_onResult Yes a cb =
     (Inr (), cb\<lparr>heap := (heap cb)(a := (heap cb a)\<lparr>failureCount := failureCount (heap cb a) + 1\<rparr>),
                 fastFailCounter := Suc (fastFailCounter cb)\<rparr>)"
  by (simp add: State_onResult_def Let_def)

lemma State_onResult_other:
  "ovl \<noteq> No \<Longrightarrow> ovl \<noteq> Yes \<Longrightarrow> State_onResult ovl a cb = (Inl UnknownState, cb)"
  by (simp add: State_onResult_def Let_def)

lemma cb_onResult_stale: "state cb \<noteq> a \<Longrightarrow> cb_onResult a ovl cb = (Inr (), cb)"
  by (simp add: cb_onResult_def)

lemma cb_onResult_fault:
  "cb_onResult a ovl cb = (Inl p, cb') \<Longrightarrow> p = UnknownState \<and> cb' = cb \<and> state cb = a"
  by (auto simp: cb_onResult_def State_onResult_def Let_def split: if_splits)

text \<open>
  Claim C6.  An outcome reported for a State that is not the breaker's current State
  changes nothing: the breaker, and with it the counters of the current State, is returned
  as it was.  Whenever recording does change the breaker, the State it was reported for is
  the current one.
\<close>

theorem stale_outcome_is_dropped:
  "(state cb \<noteq> a \<longrightarrow> cb_onResult a ovl cb = (Inr (), cb))
   \<and> (snd (cb_onResult a ovl cb) \<noteq> cb \<longrightarrow> state cb = a)"
  by (auto simp: cb_onResult_def)

text \<open>
  A request is admitted at time 5 by State 1; at 1.5 s the window has ended and another
  request moves the breaker to State 2, a fresh Closed sojourn; the overload then reported
  for State 1 leaves the breaker, and the zeroed counters of State 2, untouched.
\<close>

theorem stale_outcome_is_dropped_witness:
  "fst (cb_onRequest 5 (breakerWith cfg0 closedOneSuccess)) = Inr (1, None)
   \<and> state (snd (cb_onRequest 1500000000 (breakerWith cfg0 closedOneSuccess))) = 2
   \<and> cb_onResult 1 Yes (snd (cb_onRequest 1500000000 (breakerWith cfg0 closedOneSuccess)))
       = (Inr (), snd (cb_onRequest 1500000000 (breakerWith cfg0 closedOneSuccess)))
   \<and> currentState (snd (cb_onResult 1 Yes
         (snd (cb_onRequest 1500000000 (breakerWith cfg0 closedOneSuccess)))))
       = freshState StateClosed 2500000000 0"
proof -
  let ?cb = "breakerWith cfg0 closedOneSuccess"
  have c: "stateType (currentState ?cb) = StateClosed"
    by simp
  have r1: "cb_onRequest 5 ?cb = (Inr (1, None), ?cb)"
    by (simp add: onRequest_Closed [OF c])
  have r2: "cb_onRequest 1500000000 ?cb = (Inr (2, None), enter StateClosed 2500000000 0 ?cb)"
    by (simp add: onRequest_Closed [OF c])
      (simp add: tripCondition_def)
  show ?thesis
    using stale_outcome_is_dropped [of "enter StateClosed 2500000000 0 ?cb" 1 Yes]
    by (simp add: r1 r2)
qed


section \<open>Execute\<close>

lemma ExecuteAny_rejected:
  assumes "cb_onRequest now cb = (Inr (a, Some err), cb1)"
  shows "ExecuteAny now call cb = (Inr (None, Some ErrOpenState), cb1)"
proof -
  from cb_onRequest_results [of now cb] assms have "err = ErrOpenState" by auto
  with assms show ?thesis by (simp add: ExecuteAny_def)
qed

lemma ExecuteAny_panics:
  assumes "cb_onRequest now cb = (Inr (a, None), cb1)" and "call cb1 = (Panics v, cb2)"
  shows "ExecuteAny now call cb = (Inl (Raised v), snd (cb_onResult a Yes cb2))"
  using assms by (simp add: ExecuteAny_def)

lemma ExecuteAny_returns:
  assumes "cb_onRequest now cb = (Inr (a, None), cb1)"
    and "call cb1 = (Returns result err ovl, cb2)"
  shows "ExecuteAny now call cb =
           (case cb_onResult a ovl cb2 of
              (Inl p, cb3) \<Rightarrow> (Inl (Fault p), snd (cb_onResult a Yes cb3))
            | (Inr u, cb3) \<Rightarrow> (Inr (result, err), cb3))"
  using assms by (simp add: ExecuteAny_def)

lemma ExecuteAny_no_conversion_fault:
  "fst (ExecuteAny now call cb) \<noteq> Inl (Fault InterfaceConversion)"
proof -
  from cb_onRequest_results [of now cb]
  consider (fault) p where "cb_onRequest now cb = (Inl p, cb)" "p \<noteq> InterfaceConversion"
    | (admit) a cb1 where "cb_onRequest now cb = (Inr (a, None), cb1)"
    | (reject) a cb1 where "cb_onRequest now cb = (Inr (a, Some ErrOpenState), cb1)"
    by auto
  then show ?thesis
  proof cases
    case fault
    then show ?thesis by (simp add: ExecuteAny_def)
  next
    case reject
    then show ?thesis by (simp add: ExecuteAny_def)
  next
    case admit
    obtain out cb2 where c: "call cb1 = (out, cb2)" by (cases "call cb1")
    show ?thesis
    proof (cases out)
      case (Panics v)
      with admit c show ?thesis by (simp add: ExecuteAny_def)
    next
      case (Returns result err ovl)
      obtain r cb3 where o: "cb_onResult a ovl cb2 = (r, cb3)" by (cases "cb_onResult a ovl cb2")
      show ?thesis
      proof (cases r)
        case (Inl p)
        with o have "p = UnknownState" using cb_onResult_fault by blast
        with admit c Returns o Inl show ?thesis by (simp add: ExecuteAny_def)
      next
        case (Inr u)
        with admit c Returns o show ?thesis by (simp add: ExecuteAny_def)
      qed
    qed
  qed
qed

text \<open>
  Claim C7.  When the admission evaluation rejects, \<open>Execute\<close> returns the zero value of
  \<open>T\<close> with \<open>ErrOpenState\<close>, the one error of every rejection, and \<open>ExecuteAny\<close> the
  nil interface with the same error.  The breaker is left as the admission evaluation left
  it and the result is the same for every function passed in: the function is not run.
\<close>

theorem rejection_returns_zero_value_and_sentinel:
  assumes "cb_onRequest now cb = (Inr (a, Some err), cb1)"
  shows "err = ErrOpenState
         \<and> Execute T now call cb = (Inr (zeroValue T, Some ErrOpenState), cb1)
         \<and> ExecuteAny now call' cb = (Inr (None, Some ErrOpenState), cb1)"
proof -
  from cb_onRequest_results [of now cb] assms have "err = ErrOpenState" by auto
  then show ?thesis
    using ExecuteAny_rejected [OF assms, of "anyCall T call"] ExecuteAny_rejected [OF assms, of call']
    by (simp add: Execute_def)
qed

text \<open>An Open breaker before its deadline, and a function that would panic if it were run.\<close>

theorem rejection_returns_zero_value_and_sentinel_witness:
  "Execute T_int 2500000000 (\<lambda>c. (Panics ''boom'', c))
     (breakerWith cfg0 (freshState StateOpen 3000000000 0))
   = (Inr (0, Some ErrOpenState), incFastFail (breakerWith cfg0 (freshState StateOpen 3000000000 0)))"
proof -
  let ?cb = "breakerWith cfg0 (freshState StateOpen 3000000000 0)"
  have o: "stateType (currentState ?cb) = StateOpen" by simp
  have r: "cb_onRequest 2500000000 ?cb = (Inr (1, Some ErrOpenState), incFastFail ?cb)"
    by (simp add: onRequest_Open [OF o])
  show ?thesis
    using rejection_returns_zero_value_and_sentinel
      [OF r, of T_int "\<lambda>c. (Panics ''boom'', c)"
         "\<lambda>c. (Panics ''boom'' :: (int option, string) outcome, c)"]
    by simp
qed

text \<open>
  Claim C10.  \<open>Execute\<close> never asserts the type of a nil interface: it does not end in the
  panic of such an assertion.  Whenever \<open>ExecuteAny\<close> returns the nil interface, and so
  on every rejection, \<open>Execute\<close> returns the zero value of \<open>T\<close> with the error that came
  with it.
\<close>

theorem Execute_nil_result_gives_zero_value:
  "fst (Execute T now call cb) \<noteq> Inl (Fault InterfaceConversion)
   \<and> (ExecuteAny now (anyCall T call) cb = (Inr (None, err), cb') \<longrightarrow>
        Execute T now call cb = (Inr (zeroValue T, err), cb'))
   \<and> (cb_onRequest now cb = (Inr (a, Some e), cb1) \<longrightarrow>
        Execute T now call cb = (Inr (zeroValue T, Some e), cb1))"
proof -
  obtain r cbf where x: "ExecuteAny now (anyCall T call) cb = (r, cbf)"
    by (cases "ExecuteAny now (anyCall T call) cb")
  have "r \<noteq> Inl (Fault InterfaceConversion)"
    using ExecuteAny_no_conversion_fault [of now "anyCall T call" cb] x by simp
  then have 1: "fst (Execute T now call cb) \<noteq> Inl (Fault InterfaceConversion)"
    using x by (auto simp: Execute_def assertT_def split: sum.splits option.splits)
  have 2: "Execute T now call cb = (Inr (zeroValue T, err), cb')"
    if "ExecuteAny now (anyCall T call) cb = (Inr (None, err), cb')"
    using that by (simp add: Execute_def)
  have 3: "Execute T now call cb = (Inr (zeroValue T, Some e), cb1)"
    if h: "cb_onRequest now cb = (Inr (a, Some e), cb1)"
  proof -
    from cb_onRequest_results [of now cb] h have "e = ErrOpenState" by auto
    then show ?thesis
      using ExecuteAny_rejected [OF h, of "anyCall T call"] by (simp add: Execute_def)
  qed
  from 1 2 3 show ?thesis by blast
qed

text \<open>
  A function that returns the nil value of an interface type with an error of its own, and
  a rejection at an Open breaker.
\<close>

theorem Execute_nil_result_gives_zero_value_witness:
  "Execute T_iface 5
      (\<lambda>c. (Returns None (Some (CallError ''not found'')) No, c)
         :: (string option, string) outcome \<times> CircuitBreaker)
      (breakerWith cfg0 closedOneSuccess)
     = (Inr (None, Some (CallError ''not found'')),
        snd (cb_onResult 1 No (breakerWith cfg0 closedOneSuccess)))
   \<and> Execute T_int 2500000000
        (\<lambda>c. (Returns 7 None No, c) :: (int, string) outcome \<times> CircuitBreaker)
      (breakerWith cfg0 (freshState StateOpen 3000000000 0))
     = (Inr (0, Some ErrOpenState), incFastFail (breakerWith cfg0 (freshState StateOpen 3000000000 0)))"
proof -
  let ?cb = "breakerWith cfg0 closedOneSuccess"
  let ?ob = "breakerWith cfg0 (freshState StateOpen 3000000000 0)"
  let ?f = "\<lambda>c. (Returns None (Some (CallError ''not found'')) No, c)
              :: (string option, string) outcome \<times> CircuitBreaker"
  have c: "stateType (currentState ?cb) = StateClosed"
    by simp
  have r: "cb_onRequest 5 ?cb = (Inr (1, None), ?cb)"
    by (simp add: onRequest_Closed [OF c])
  have e: "ExecuteAny 5 (anyCall T_iface ?f) ?cb
             = (Inr (None, Some (CallError ''not found'')), snd (cb_onResult 1 No ?cb))"
    by (simp add: ExecuteAny_def r anyCall_def toAny_def cb_onResult_def State_onResult_No)
  have o: "stateType (currentState ?ob) = StateOpen" by simp
  have q: "cb_onRequest 2500000000 ?ob = (Inr (1, Some ErrOpenState), incFastFail ?ob)"
    by (simp add: onRequest_Open [OF o])
  show ?thesis
    using Execute_nil_result_gives_zero_value
        [of T_iface 5 ?f ?cb "Some (CallError ''not found'')" "snd (cb_onResult 1 No ?cb)"
          1 ErrOpenState ?cb]
      Execute_nil_result_gives_zero_value
        [of T_int 2500000000 "\<lambda>c. (Returns 7 None No, c) :: (int, string) outcome \<times> CircuitBreaker"
          ?ob None ?ob 1 ErrOpenState "incFastFail ?ob"]
    by (simp add: e q)
qed


section \<open>The observability counters\<close>

lemma snd_Execute: "snd (Execute T now call cb) = snd (ExecuteAny now (anyCall T call) cb)"
  by (simp add: Execute_def assertT_def split: prod.splits sum.splits option.splits)

lemma counters_onResult_current:
  "counters (snd (cb_onResult (state cb) No cb))
     = (Suc (successCounter cb), failureCounter cb, fastFailCounter cb)"
  "counters (snd (cb_onResult (state cb) Yes cb))
     = (successCounter cb, failureCounter cb, Suc (fastFailCounter cb))"
  by (simp_all add: cb_onResult_def State_onResult_No State_onResult_Yes counters_def)

lemma ExecuteAny_admitted_stale:
  assumes "cb_onRequest now cb = (Inr (a, None), cb1)" and "call cb1 = (out, cb2)"
    and "state cb2 \<noteq> a"
  shows "snd (ExecuteAny now call cb) = cb2"
  using assms by (cases out) (simp_all add: ExecuteAny_def cb_onResult_stale)

lemma ExecuteAny_admitted_current:
  assumes "cb_onRequest now cb = (Inr (a, None), cb1)" and "call cb1 = (out, cb2)"
    and "state cb2 = a"
  shows "counters (snd (ExecuteAny now call cb)) =
           (if \<exists>res e. out = Returns res e No
            then (Suc (successCounter cb2), failureCounter cb2, fastFailCounter cb2)
            else (successCounter cb2, failureCounter cb2, Suc (fastFailCounter cb2)))"
proof (cases out)
  case (Panics v)
  with assms counters_onResult_current(2) [of cb2] show ?thesis
    by (simp add: ExecuteAny_def)
next
  case (Returns res e ovl)
  consider (no) "ovl = No" | (yes) "ovl = Yes" | (other) "ovl \<noteq> No" "ovl \<noteq> Yes" by blast
  then show ?thesis
  proof cases
    case no
    with assms Returns counters_onResult_current(1) [of cb2] show ?thesis
      by (simp add: ExecuteAny_def cb_onResult_def State_onResult_No)
  next
    case yes
    with assms Returns counters_onResult_current(2) [of cb2] show ?thesis
      by (simp add: ExecuteAny_def cb_onResult_def State_onResult_Yes)
  next
    case other
    with assms Returns counters_onResult_current(2) [of cb2] show ?thesis
      by (simp add: ExecuteAny_def cb_onResult_def State_onResult_other)
  qed
qed

lemma anyCall_Returns_No:
  "(\<exists>res e. fst (anyCall T call c) = Returns res e No) \<longleftrightarrow> (\<exists>res e. fst (call c) = Returns res e No)"
  by (cases "call c"; cases "fst (call c)") (auto simp: anyCall_def)

lemma snd_anyCall: "snd (anyCall T call c) = snd (call c)"
  by (cases "call c"; cases "fst (call c)") (auto simp: anyCall_def)

text \<open>
  Claim C2, as amended.  For an \<open>Execute\<close> call whose admission evaluation returns: a
  rejection increments fast-fail once, touches no other counter and does not run the
  function; an admission touches no counter by itself.  After the function has run, the
  call increments no counter when the admitting State is no longer the current one, and
  exactly one counter when it still is, namely success when the function returned with the
  classification \<open>No\<close>.  (The counters are compared with their values when the function
  ended, since the function may use the breaker itself.)
\<close>

theorem Execute_counter_effect:
  assumes "cb_onRequest now cb = (Inr (a, err), cb1)" and "call cb1 = (out, cb2)"
  shows
    "(err \<noteq> None \<longrightarrow>
        snd (Execute T now call cb) = cb1
        \<and> counters cb1 = (successCounter cb, failureCounter cb, Suc (fastFailCounter cb)))
     \<and> (err = None \<longrightarrow> counters cb1 = counters cb)
     \<and> (err = None \<and> state cb2 \<noteq> a \<longrightarrow>
        counters (snd (Execute T now call cb)) = counters cb2)
     \<and> (err = None \<and> state cb2 = a \<longrightarrow>
        counters (snd (Execute T now call cb))
          \<in> {(Suc (successCounter cb2), failureCounter cb2, fastFailCounter cb2),
              (successCounter cb2, Suc (failureCounter cb2), fastFailCounter cb2),
              (successCounter cb2, failureCounter cb2, Suc (fastFailCounter cb2))})
     \<and> (err = None \<and> state cb2 = a \<and> (\<exists>res e. out = Returns res e No) \<longrightarrow>
        counters (snd (Execute T now call cb))
          = (Suc (successCounter cb2), failureCounter cb2, fastFailCounter cb2))"
proof (cases err)
  case (Some e)
  from cb_onRequest_results [of now cb] assms(1) Some
  have c: "counters cb1 = (successCounter cb, failureCounter cb, Suc (fastFailCounter cb))"
    by auto
  from assms(1) Some have "cb_onRequest now cb = (Inr (a, Some e), cb1)" by simp
  from ExecuteAny_rejected [OF this, of "anyCall T call"]
  have "snd (Execute T now call cb) = cb1" by (simp add: snd_Execute)
  with c Some show ?thesis by simp
next
  case None
  with assms(1) have adm: "cb_onRequest now cb = (Inr (a, None), cb1)" by simp
  from cb_onRequest_results [of now cb] adm have c: "counters cb1 = counters cb" by auto
  obtain out' where a: "anyCall T call cb1 = (out', cb2)"
    using snd_anyCall [of T call cb1] assms(2) by (cases "anyCall T call cb1") simp
  have n: "(\<exists>res e. out' = Returns res e No) \<longleftrightarrow> (\<exists>res e. out = Returns res e No)"
    using anyCall_Returns_No [of T call cb1] a assms(2) by simp
  have stale: "counters (snd (Execute T now call cb)) = counters cb2" if "state cb2 \<noteq> a"
    using ExecuteAny_admitted_stale [where call = "anyCall T call", OF adm a that]
    by (simp add: snd_Execute)
  have cur: "counters (snd (Execute T now call cb)) =
           (if \<exists>res e. out = Returns res e No
            then (Suc (successCounter cb2), failureCounter cb2, fastFailCounter cb2)
            else (successCounter cb2, failureCounter cb2, Suc (fastFailCounter cb2)))"
    if "state cb2 = a"
    using ExecuteAny_admitted_current [where call = "anyCall T call", OF adm a that] n
    by (simp add: snd_Execute)
  from None c stale cur show ?thesis by simp
qed


text \<open>Unfolding everything evaluates the operations on a concrete breaker.\<close>

lemmas eval_defs = Execute_def ExecuteAny_def anyCall_def toAny_def assertT_def cb_onRequest_def
  State_onRequest_def cb_onResult_def State_onResult_def returning_def newState_def alloc_def
  NewCircuitBreaker_def okCall_def nestedCall_def nestedPanicCall_def Let_def counters_def
  currentState_def

lemma usedOnce_eq:
  "usedOnce = (breakerWith cfg0 closedOneSuccess)\<lparr>successCounter := 1\<rparr>"
  by (simp add: usedOnce_def eval_defs breakerWith_def closedOneSuccess_def)

lemma usedOnce_admits: "cb_onRequest 5 usedOnce = (Inr (1, None), usedOnce)"
  by (simp add: usedOnce_eq eval_defs breakerWith_def closedOneSuccess_def)

lemma nestedCall_usedOnce:
  "fst (nestedCall usedOnce) = Returns 7 None No"
  "state (snd (nestedCall usedOnce)) = 2"
  "counters (snd (nestedCall usedOnce)) = (2, 0, 0)"
  by (simp_all add: usedOnce_eq eval_defs breakerWith_def closedOneSuccess_def)

text \<open>
  A rejection at an Open breaker counts one fast-fail; a successful call inside the window
  counts one success; a call during which the window ends and the breaker moves on adds
  nothing to the counters as they were when its function ended.
\<close>

theorem Execute_counter_effect_witness:
  "counters (snd (Execute T_int 2500000000 okCall
       (breakerWith cfg0 (freshState StateOpen 3000000000 0)))) = (0, 0, 1)
   \<and> counters (snd (Execute T_int 5 okCall usedOnce)) = (2, 0, 0)
   \<and> counters (snd (Execute T_int 5 nestedCall usedOnce)) = counters (snd (nestedCall usedOnce))"
proof -
  let ?ob = "breakerWith cfg0 (freshState StateOpen 3000000000 0)"
  have o: "stateType (currentState ?ob) = StateOpen" by simp
  have q: "cb_onRequest 2500000000 ?ob = (Inr (1, Some ErrOpenState), incFastFail ?ob)"
    by (simp add: onRequest_Open [OF o])
  have k: "okCall c = (Returns 7 None No, c)" for c
    by (simp add: okCall_def)
  have n: "nestedCall usedOnce = (Returns 7 None No, snd (nestedCall usedOnce))"
    using nestedCall_usedOnce(1) by (cases "nestedCall usedOnce") simp
  have u: "counters usedOnce = (1, 0, 0)" "state usedOnce = 1"
    by (simp_all add: usedOnce_eq counters_def)
  show ?thesis
    using Execute_counter_effect [where call = okCall and T = T_int, OF q k]
      Execute_counter_effect [where call = okCall and T = T_int, OF usedOnce_admits k]
      Execute_counter_effect [where call = nestedCall and T = T_int, OF usedOnce_admits n]
      u nestedCall_usedOnce(2)
    by (simp add: counters_def)
qed

text \<open>
  Claim C2 as the specification states it fails.  A breaker is created at time 0 and used
  once.  Then a call is admitted at time 5 ns whose function, at 1.5 s, makes a call of its
  own through the breaker: the window has ended, the inner call moves the breaker to a
  fresh Closed State and counts its success.  The outer call finds its admitting State
  superseded and counts nothing: two calls ran their functions and returned, and the
  counters went from (1, 0, 0) to (2, 0, 0).
\<close>

theorem Execute_stale_outcome_counterexample:
  "counters usedOnce = (1, 0, 0)
   \<and> fst (Execute T_int 1500000000 okCall usedOnce) = Inr (7, None)
   \<and> fst (Execute T_int 5 nestedCall usedOnce) = Inr (7, None)
   \<and> counters (snd (nestedCall usedOnce)) = (2, 0, 0)
   \<and> counters (snd (Execute T_int 5 nestedCall usedOnce)) = (2, 0, 0)"
  by (simp add: usedOnce_eq eval_defs breakerWith_def closedOneSuccess_def)

text \<open>
  What the amended claim leaves out: an overloaded outcome, like a panic of the function, is
  counted by the fast-fail counter.  No operation increments the failure counter.
\<close>

lemma overloaded_outcome_counts_fast_fail:
  "counters (snd (Execute T_int 5 (\<lambda>c. (Returns 7 None Yes, c)) usedOnce)) = (1, 0, 1)"
  by (simp add: usedOnce_eq eval_defs breakerWith_def closedOneSuccess_def)

lemma failureCounter_never_incremented:
  "failureCounter (snd (cb_onRequest now cb)) = failureCounter cb"
  "failureCounter (snd (cb_onResult a ovl cb)) = failureCounter cb"
proof -
  from cb_onRequest_results [of now cb]
  have "counters (snd (cb_onRequest now cb)) = counters cb
      \<or> counters (snd (cb_onRequest now cb))
           = (successCounter cb, failureCounter cb, Suc (fastFailCounter cb))"
    by auto
  then show "failureCounter (snd (cb_onRequest now cb)) = failureCounter cb"
    by (auto simp: counters_def)
  show "failureCounter (snd (cb_onResult a ovl cb)) = failureCounter cb"
    by (simp add: cb_onResult_def State_onResult_def Let_def)
qed


section \<open>Panics of the caller's function\<close>

text \<open>
  Claim C8, as amended.  When the admitted function panics with a value \<open>v\<close>, \<open>Yes\<close> is
  reported for the admitting State through \<open>CircuitBreaker.onResult\<close>, and the call then
  panics with the same \<open>v\<close>, from \<open>ExecuteAny\<close> and from \<open>Execute\<close> alike.  If the
  admitting State is still the current one, the report adds one to its \<open>failureCount\<close>;
  if it has been superseded, the report is dropped and the breaker stays as the function
  left it.
\<close>

theorem panic_is_reported_then_propagates:
  assumes "cb_onRequest now cb = (Inr (a, None), cb1)" and "call cb1 = (Panics v, cb2)"
  shows "Execute T now call cb = (Inl (Raised v), snd (cb_onResult a Yes cb2))
         \<and> ExecuteAny now (anyCall T call) cb = (Inl (Raised v), snd (cb_onResult a Yes cb2))
         \<and> (state cb2 = a \<longrightarrow>
              failureCount (heap (snd (cb_onResult a Yes cb2)) a) = failureCount (heap cb2 a) + 1
              \<and> successCount (heap (snd (cb_onResult a Yes cb2)) a) = successCount (heap cb2 a))
         \<and> (state cb2 \<noteq> a \<longrightarrow> snd (cb_onResult a Yes cb2) = cb2)"
proof -
  have "anyCall T call cb1 = (Panics v, cb2)"
    using assms(2) by (simp add: anyCall_def)
  from ExecuteAny_panics [where call = "anyCall T call", OF assms(1) this] show ?thesis
    by (simp add: Execute_def cb_onResult_def State_onResult_Yes)
qed

lemma nestedPanicCall_usedOnce:
  "fst (nestedPanicCall usedOnce) = Panics ''boom''"
  "state (snd (nestedPanicCall usedOnce)) = 2"
  "counters (snd (nestedPanicCall usedOnce)) = (2, 0, 0)"
  by (simp_all add: usedOnce_eq eval_defs breakerWith_def closedOneSuccess_def)

text \<open>
  A panic inside the window adds one failure to the admitting State, which is still the
  current one.  A panic of a function that has outlived the window and moved the breaker on
  by a call of its own is propagated, and the breaker stays as the function left it.
\<close>

theorem panic_is_reported_then_propagates_witness:
  "fst (Execute T_int 5 (\<lambda>c. (Panics ''boom'', c)) (breakerWith cfg0 closedOneSuccess))
     = Inl (Raised ''boom'')
   \<and> failureCount (currentState (snd (Execute T_int 5 (\<lambda>c. (Panics ''boom'', c))
        (breakerWith cfg0 closedOneSuccess)))) = 1
   \<and> Execute T_int 5 nestedPanicCall usedOnce
     = (Inl (Raised ''boom''), snd (nestedPanicCall usedOnce))"
proof -
  let ?cb = "breakerWith cfg0 closedOneSuccess"
  have c: "stateType (currentState ?cb) = StateClosed"
    by simp
  have r: "cb_onRequest 5 ?cb = (Inr (1, None), ?cb)"
    by (simp add: onRequest_Closed [OF c])
  have n: "nestedPanicCall usedOnce = (Panics ''boom'', snd (nestedPanicCall usedOnce))"
    using nestedPanicCall_usedOnce(1) by (cases "nestedPanicCall usedOnce") simp
  show ?thesis
    using panic_is_reported_then_propagates
      [where call = "\<lambda>c. (Panics ''boom'', c)" and v = "''boom''" and ?cb2.0 = ?cb and T = T_int,
        OF r]
      panic_is_reported_then_propagates
      [where call = nestedPanicCall and T = T_int, OF usedOnce_admits n]
      nestedPanicCall_usedOnce(2)
    by (simp add: currentState_def cb_onResult_def State_onResult_Yes)
qed

text \<open>
  Claim C8 as the specification states it fails.  A breaker is created at time 0 and used
  once.  Then a call is admitted at time 5 ns by State 1.  Its function, at 1.5 s, makes a
  call of its own through the breaker, which moves the breaker to State 2, and then
  panics.  The panic reaches the caller, and no failure has been recorded: not on the
  admitting State 1, not on the current State 2, and no counter has moved since the
  function ended.
\<close>

theorem panic_after_supersession_counterexample:
  "fst (cb_onRequest 5 usedOnce) = Inr (1, None)
   \<and> failureCount (heap usedOnce 1) = 0
   \<and> fst (Execute T_int 5 nestedPanicCall usedOnce) = Inl (Raised ''boom'')
   \<and> failureCount (heap (snd (Execute T_int 5 nestedPanicCall usedOnce)) 1) = 0
   \<and> state (snd (Execute T_int 5 nestedPanicCall usedOnce)) = 2
   \<and> failureCount (heap (snd (Execute T_int 5 nestedPanicCall usedOnce)) 2) = 0
   \<and> counters (snd (nestedPanicCall usedOnce)) = (2, 0, 0)
   \<and> counters (snd (Execute T_int 5 nestedPanicCall usedOnce)) = (2, 0, 0)"
  by (simp add: usedOnce_eq eval_defs breakerWith_def closedOneSuccess_def)

end
